theory Spec2Isabelle
  imports Complex_Main
begin

section \<open>Python values, exceptions and the outside world\<close>

text \<open>
  The runners of \<^verbatim>\<open>models.py\<close> are dynamically typed: \<^verbatim>\<open>run\<close> takes any object as
  input and any keyword options. The values that can reach them are modelled by one
  datatype. A float is modelled by a real number: the only floats of the program are
  clock readings and their differences, and only their order and sign are used.
\<close>

datatype pil_image = PIL_Image (mode: string) (pixels: "nat list")

datatype pyval =
    PNone
  | PBool bool
  | PInt int
  | PFloat real
  | PStr string
  | PImage pil_image
  | PList "pyval list"
  | PDict "(string \<times> pyval) list"

text \<open>Exceptions are values; \<open>OtherError\<close> carries the class name of any other exception.\<close>

datatype pyerr =
    RuntimeError string
  | TypeError string
  | ValueError string
  | OtherError string string

type_synonym kwargs = "(string \<times> pyval) list"

text \<open>
  A loaded pipeline is an opaque callable of the external library: it takes one input and
  keyword options and returns a value or raises.
\<close>

datatype pipe = Pipe (invoke: "pyval \<Rightarrow> kwargs \<Rightarrow> pyerr + pyval")

text \<open>
  The external libraries the runners call: \<^verbatim>\<open>transformers.pipeline(task=, model=)\<close>,
  \<^verbatim>\<open>PIL.Image.open(path)\<close> and \<^verbatim>\<open>Image.convert(mode)\<close>. Each may raise. With them, the
  one setting of the interpreter the runners depend on: the limit on the digits of an
  integer literal (\<^verbatim>\<open>sys.get_int_max_str_digits()\<close>).
\<close>

record env =
  pipeline :: "string \<Rightarrow> string \<Rightarrow> pyerr + pipe"
  image_open :: "string \<Rightarrow> pyerr + pil_image"
  image_convert :: "pil_image \<Rightarrow> string \<Rightarrow> pyerr + pil_image"
  int_max_str_digits :: nat

text \<open>
  The part of the process state the runners touch besides their own fields:
  the wall clock (the readings \<^verbatim>\<open>time.time()\<close> returns, in order, and how many were
  taken), the lines printed, and the pipeline invocations made so far.
\<close>

record world =
  clock :: "nat \<Rightarrow> real"
  ticks :: nat
  stdout :: "string list"
  calls :: "(pyval \<times> kwargs) list"

definition time :: "world \<Rightarrow> real \<times> world" where
  "time w = (clock w (ticks w), w\<lparr>ticks := Suc (ticks w)\<rparr>)"

subsection \<open>Builtins used by the runners\<close>

fun type_name :: "pyval \<Rightarrow> string" where
  "type_name PNone = ''NoneType''"
| "type_name (PBool _) = ''bool''"
| "type_name (PInt _) = ''int''"
| "type_name (PFloat _) = ''float''"
| "type_name (PStr _) = ''str''"
| "type_name (PImage _) = ''Image''"
| "type_name (PList _) = ''list''"
| "type_name (PDict _) = ''dict''"

text \<open>\<^verbatim>\<open>len(x)\<close>: defined on strings, lists and dicts; a type error on the rest.\<close>

fun py_len :: "pyval \<Rightarrow> pyerr + nat" where
  "py_len (PStr s) = Inr (length s)"
| "py_len (PList xs) = Inr (length xs)"
| "py_len (PDict kvs) = Inr (length kvs)"
| "py_len v = Inl (TypeError (''object of type '' @ [CHR 0x27] @ type_name v @ [CHR 0x27] @ '' has no len()''))"

text \<open>Decimal rendering of an integer, as an f-string does it.\<close>

fun show_nat :: "nat \<Rightarrow> string" where
  "show_nat n = (if n < 10 then [char_of (48 + n)]
                 else show_nat (n div 10) @ [char_of (48 + n mod 10)])"

declare show_nat.simps [simp del]

definition show_int :: "int \<Rightarrow> string" where
  "show_int i = (if i < 0 then CHR ''-'' # show_nat (nat (- i)) else show_nat (nat i))"

text \<open>
  \<^verbatim>\<open>repr(s)\<close> of a string: single quotes unless the string has a single quote and no
  double quote; the backslash and the chosen quote escaped; tab, newline and return by
  their letters; every other character that does not print as \<^verbatim>\<open>\xhh\<close>. A character
  of a \<open>string\<close> stands for the code point of the same number, so the strings of the
  model are those of code points below 256.
\<close>

definition hex_digit :: "nat \<Rightarrow> char" where
  "hex_digit n = (if n < 10 then char_of (48 + n) else char_of (87 + n))"

definition printable :: "char \<Rightarrow> bool" where
  "printable c =
     (let n = of_char c :: nat in (32 \<le> n \<and> n < 127) \<or> (161 \<le> n \<and> n \<noteq> 173))"

definition repr_char :: "char \<Rightarrow> char \<Rightarrow> string" where
  "repr_char quote c =
     (if c = CHR 0x5C \<or> c = quote then [CHR 0x5C, c]
      else if c = CHR 0x09 then [CHR 0x5C, CHR ''t'']
      else if c = CHR 0x0A then [CHR 0x5C, CHR ''n'']
      else if c = CHR 0x0D then [CHR 0x5C, CHR ''r'']
      else if printable c then [c]
      else [CHR 0x5C, CHR ''x'', hex_digit (of_char c div 16), hex_digit (of_char c mod 16)])"

definition py_repr :: "string \<Rightarrow> string" where
  "py_repr s =
     (let quote = (if CHR 0x27 \<in> set s \<and> CHR 0x22 \<notin> set s then CHR 0x22 else CHR 0x27)
      in [quote] @ concat (map (repr_char quote) s) @ [quote])"

text \<open>
  \<^verbatim>\<open>int(s)\<close> of a string, as the interpreter reads a decimal literal. A string with a
  character outside ASCII is first rewritten: a space outside ASCII (of the code
  points below 256, the next-line and the no-break space) becomes a blank, and the
  string is cut at the first other character outside ASCII, which becomes a question
  mark. Then: blanks (the six ASCII ones), an optional sign, digits with single
  underscores between them and none in front, more blanks, and nothing else. The
  interpreter refuses a literal of more digits than its limit
  (\<^verbatim>\<open>sys.get_int_max_str_digits()\<close>, 4300 unless changed; 0 for no limit, also on an
  interpreter that has none), once the underscores have been checked and before it
  looks at what follows the digits. The message of an invalid literal holds the first
  200 characters of the \<^verbatim>\<open>repr\<close> of the string.
\<close>

definition is_space :: "char \<Rightarrow> bool" where
  "is_space c \<longleftrightarrow> c \<in> set [CHR 0x20, CHR 0x09, CHR 0x0A, CHR 0x0B, CHR 0x0C, CHR 0x0D]"

definition is_unicode_space :: "char \<Rightarrow> bool" where
  "is_unicode_space c \<longleftrightarrow> c \<in> set [CHR 0x85, CHR 0xA0]"

fun transform_spaces :: "string \<Rightarrow> string" where
  "transform_spaces [] = []"
| "transform_spaces (c # cs) =
     (if (of_char c :: nat) < 127 then c # transform_spaces cs
      else if is_unicode_space c then CHR 0x20 # transform_spaces cs
      else [CHR ''?''])"

definition to_ascii :: "string \<Rightarrow> string" where
  "to_ascii s = (if list_all (\<lambda>c. (of_char c :: nat) < 128) s then s else transform_spaces s)"

definition digit_of :: "char \<Rightarrow> nat option" where
  "digit_of c = (let n = of_char c :: nat in if 48 \<le> n \<and> n \<le> 57 then Some (n - 48) else None)"

text \<open>The scan over digits and underscores: the number of digits, their value and what
  follows them; nothing when two underscores meet or one ends the digits.\<close>

fun scan_digits :: "string \<Rightarrow> bool \<Rightarrow> nat \<Rightarrow> nat \<Rightarrow> (nat \<times> nat \<times> string) option" where
  "scan_digits [] prev n v = (if prev then None else Some (n, v, []))"
| "scan_digits (c # cs) prev n v =
     (if c = CHR ''_'' then (if prev then None else scan_digits cs True n v)
      else (case digit_of c of
              Some d \<Rightarrow> scan_digits cs False (Suc n) (10 * v + d)
            | None \<Rightarrow> if prev then None else Some (n, v, c # cs)))"

definition int_of_str :: "nat \<Rightarrow> string \<Rightarrow> pyerr + int" where
  "int_of_str max_str_digits s =
     (let invalid = Inl (ValueError (''invalid literal for int() with base 10: ''
                                       @ take 200 (py_repr s)));
          t = dropWhile is_space (to_ascii s);
          neg = (case t of [] \<Rightarrow> False | c # _ \<Rightarrow> c = CHR ''-'');
          u = (case t of [] \<Rightarrow> [] | c # cs \<Rightarrow> if c = CHR ''+'' \<or> c = CHR ''-'' then cs else t)
      in case u of
           [] \<Rightarrow> invalid
         | c # _ \<Rightarrow>
             if c = CHR ''_'' then invalid
             else (case scan_digits u False 0 0 of
                     None \<Rightarrow> invalid
                   | Some (n, v, rest) \<Rightarrow>
                       if n = 0 then invalid
                       else if 640 < n \<and> 0 < max_str_digits \<and> max_str_digits < n then
                         Inl (ValueError (''Exceeds the limit ('' @ show_nat max_str_digits
                                @ '' digits) for integer string conversion: value has ''
                                @ show_nat n
                                @ '' digits; use sys.set_int_max_str_digits() to increase the limit''))
                       else if dropWhile is_space rest \<noteq> [] then invalid
                       else Inr (if neg then - int v else int v)))"

text \<open>
  \<^verbatim>\<open>int(x)\<close>: the identity on integers, 0/1 on booleans, truncation towards zero on
  floats, the literal on strings, a type error on the rest.
\<close>

fun py_int :: "nat \<Rightarrow> pyval \<Rightarrow> pyerr + int" where
  "py_int m (PInt i) = Inr i"
| "py_int m (PBool b) = Inr (if b then 1 else 0)"
| "py_int m (PFloat x) = Inr (if 0 \<le> x then \<lfloor>x\<rfloor> else \<lceil>x\<rceil>)"
| "py_int m (PStr s) = int_of_str m s"
| "py_int m v = Inl (TypeError (''int() argument must be a string, a bytes-like object or a real number, not ''
                               @ [CHR 0x27] @ type_name v @ [CHR 0x27]))"

text \<open>\<^verbatim>\<open>d.get(key, default)\<close> on a dict.\<close>

definition dict_get :: "(string \<times> 'v) list \<Rightarrow> string \<Rightarrow> 'v \<Rightarrow> 'v" where
  "dict_get d k dflt = (case map_of d k of None \<Rightarrow> dflt | Some v \<Rightarrow> v)"

section \<open>decorators.py\<close>

text \<open>
  The instance the decorated methods receive is a runner of \<^verbatim>\<open>models.py\<close>: the fields of
  the dataclass \<^verbatim>\<open>BaseModelRunner\<close>, the concrete class of the instance (the abstract base
  has no instances), and the attribute \<^verbatim>\<open>_logger_enabled\<close> the logging mixin looks up,
  which is absent unless someone sets it. A field \<^verbatim>\<open>_x\<close> is named \<open>priv_x\<close>.

  A method is a function from the instance and the world to an outcome (an exception or
  a return value), the updated instance and the updated world. The arguments of the
  call are already applied to it.
\<close>

datatype runner_class = TextModelRunner | ImageModelRunner

record runner =
  cls :: runner_class
  model_id :: string
  task :: string
  category :: string
  short_description :: string
  priv_initialized :: bool
  priv_pipe :: "pipe option"
  last_runtime_s :: real
  priv_logger_enabled :: "bool option"

type_synonym 'a action = "runner \<Rightarrow> world \<Rightarrow> (pyerr + 'a) \<times> runner \<times> world"

text \<open>
  \<^verbatim>\<open>timeit\<close>: one clock reading before the call, one in the \<^verbatim>\<open>finally\<close> block, their
  difference stored in \<^verbatim>\<open>last_runtime_s\<close>; the outcome of the call, a return value or an
  exception, goes through.
\<close>

definition timeit :: "'a action \<Rightarrow> 'a action" where
  "timeit fn self w =
     (let (start, w1) = time w;
          (res, self1, w2) = fn self w1;
          (stop, w3) = time w2
      in (res, self1\<lparr>last_runtime_s := stop - start\<rparr>, w3))"

definition ensure_initialized :: "'a action \<Rightarrow> 'a action" where
  "ensure_initialized fn self w =
     (if \<not> priv_initialized self
      then (Inl (RuntimeError ''Model is not initialized. Call `load()` first.''), self, w)
      else fn self w)"

section \<open>models.py\<close>

subsection \<open>The logging mixin and the base runner\<close>

definition class_name :: "runner_class \<Rightarrow> string" where
  "class_name c = (case c of TextModelRunner \<Rightarrow> ''TextModelRunner''
                            | ImageModelRunner \<Rightarrow> ''ImageModelRunner'')"

definition LoggingMixin_log :: "runner \<Rightarrow> string \<Rightarrow> world \<Rightarrow> world" where
  "LoggingMixin_log self message w =
     (if (case priv_logger_enabled self of None \<Rightarrow> True | Some b \<Rightarrow> b)
      then w\<lparr>stdout := stdout w @ [''[LOG] '' @ class_name (cls self) @ '': '' @ message]\<rparr>
      else w)"

definition initialized :: "runner \<Rightarrow> bool" where
  "initialized self = priv_initialized self"

definition BaseModelRunner_describe :: "runner \<Rightarrow> string" where
  "BaseModelRunner_describe self =
     ''Generic model runner for task='' @ [CHR 0x27] @ task self @ [CHR 0x27]
       @ '', model='' @ [CHR 0x27] @ model_id self @ [CHR 0x27] @ ''.''"

definition TextModelRunner_describe :: "runner \<Rightarrow> string" where
  "TextModelRunner_describe self =
     ''TextModelRunner overrides describe(): runs a text pipeline (e.g., sentiment-analysis).''
       @ [CHR 0x0A] @ ''Model: '' @ model_id self @ [CHR 0x0A] @ ''Task: '' @ task self"

definition ImageModelRunner_describe :: "runner \<Rightarrow> string" where
  "ImageModelRunner_describe self =
     ''ImageModelRunner overrides describe(): runs an image pipeline (e.g., image-classification).''
       @ [CHR 0x0A] @ ''Model: '' @ model_id self @ [CHR 0x0A] @ ''Task: '' @ task self"

text \<open>\<^verbatim>\<open>self.describe()\<close>: both concrete classes override the base method.\<close>

definition describe :: "runner \<Rightarrow> string" where
  "describe self = (case cls self of TextModelRunner \<Rightarrow> TextModelRunner_describe self
                                   | ImageModelRunner \<Rightarrow> ImageModelRunner_describe self)"

text \<open>
  \<^verbatim>\<open>meta()\<close>: \<^verbatim>\<open>a or b\<close> on strings is \<^verbatim>\<open>a\<close> unless \<^verbatim>\<open>a\<close> is empty. The dict is kept
  as the list of its items, in the order of the literal.
\<close>

definition meta :: "runner \<Rightarrow> (string \<times> string) list" where
  "meta self =
     [(''name'', model_id self),
      (''category'', category self),
      (''short_description'',
         if short_description self \<noteq> [] then short_description self else describe self)]"

subsection \<open>Calling the pipeline\<close>

text \<open>
  \<^verbatim>\<open>self._pipe(x, **kw)\<close>: calling \<^verbatim>\<open>None\<close> is a type error; calling a pipeline is
  recorded in the world and yields what the pipeline yields.
\<close>

definition call_pipe :: "pipe option \<Rightarrow> pyval \<Rightarrow> kwargs \<Rightarrow> world \<Rightarrow> (pyerr + pyval) \<times> world" where
  "call_pipe p x kw w =
     (case p of
        None \<Rightarrow> (Inl (TypeError ([CHR 0x27] @ ''NoneType'' @ [CHR 0x27] @ '' object is not callable'')), w)
      | Some P \<Rightarrow> (invoke P x kw, w\<lparr>calls := calls w @ [(x, kw)]\<rparr>))"

subsection \<open>The text runner\<close>

definition TextModelRunner_load_body :: "env \<Rightarrow> unit action" where
  "TextModelRunner_load_body e self w =
     (let w1 = LoggingMixin_log self
                 (''Loading text pipeline: task='' @ task self @ '', model='' @ model_id self) w
      in case pipeline e (task self) (model_id self) of
           Inl err \<Rightarrow> (Inl err, self, w1)
         | Inr p \<Rightarrow> (Inr (), self\<lparr>priv_pipe := Some p, priv_initialized := True\<rparr>, w1))"

definition TextModelRunner_load :: "env \<Rightarrow> unit action" where
  "TextModelRunner_load e = timeit (TextModelRunner_load_body e)"

definition TextModelRunner_run_body :: "pyval \<Rightarrow> kwargs \<Rightarrow> (string \<times> pyval) list action" where
  "TextModelRunner_run_body user_input kw self w =
     (case py_len user_input of
        Inl err \<Rightarrow> (Inl err, self, w)
      | Inr n \<Rightarrow>
          (let w1 = LoggingMixin_log self (''Running text model on input length='' @ show_nat n) w;
               (r, w2) = call_pipe (priv_pipe self) user_input [] w1
           in case r of
                Inl err \<Rightarrow> (Inl err, self, w2)
              | Inr results \<Rightarrow>
                  (Inr [(''results'', results),
                        (''runtime_s'', PFloat (last_runtime_s self)),
                        (''model'', PStr (model_id self)),
                        (''task'', PStr (task self))], self, w2)))"

definition TextModelRunner_run :: "pyval \<Rightarrow> kwargs \<Rightarrow> (string \<times> pyval) list action" where
  "TextModelRunner_run user_input kw =
     ensure_initialized (timeit (TextModelRunner_run_body user_input kw))"

subsection \<open>The image runner\<close>

definition preprocess :: "runner \<Rightarrow> pil_image \<Rightarrow> pil_image" where
  "preprocess self img = img"

definition ImageModelRunner_load_body :: "env \<Rightarrow> unit action" where
  "ImageModelRunner_load_body e self w =
     (let w1 = LoggingMixin_log self
                 (''Loading image pipeline: task='' @ task self @ '', model='' @ model_id self) w
      in case pipeline e (task self) (model_id self) of
           Inl err \<Rightarrow> (Inl err, self, w1)
         | Inr p \<Rightarrow> (Inr (), self\<lparr>priv_pipe := Some p, priv_initialized := True\<rparr>, w1))"

definition ImageModelRunner_load :: "env \<Rightarrow> unit action" where
  "ImageModelRunner_load e = timeit (ImageModelRunner_load_body e)"

text \<open>The first statement of \<^verbatim>\<open>ImageModelRunner.run\<close>: a path is opened and converted, an
  image is taken as it is, anything else raises.\<close>

definition accept_image :: "env \<Rightarrow> pyval \<Rightarrow> pyerr + pil_image" where
  "accept_image e user_input =
     (case user_input of
        PStr path \<Rightarrow>
          (case image_open e path of
             Inl err \<Rightarrow> Inl err
           | Inr im \<Rightarrow> image_convert e im ''RGB'')
      | PImage im \<Rightarrow> Inr im
      | _ \<Rightarrow> Inl (TypeError ''user_input must be a path or PIL.Image.Image for image tasks.''))"

definition ImageModelRunner_run_body :: "env \<Rightarrow> pyval \<Rightarrow> kwargs \<Rightarrow> (string \<times> pyval) list action" where
  "ImageModelRunner_run_body e user_input kw self w =
     (case accept_image e user_input of
        Inl err \<Rightarrow> (Inl err, self, w)
      | Inr img0 \<Rightarrow>
          (let img = preprocess self img0 in
           case py_int (int_max_str_digits e) (dict_get kw ''top_k'' (PInt 5)) of
             Inl err \<Rightarrow> (Inl err, self, w)
           | Inr top_k \<Rightarrow>
               (let w1 = LoggingMixin_log self
                           (''Running image model (top_k='' @ show_int top_k
                              @ '') on provided image...'') w;
                    (r, w2) = call_pipe (priv_pipe self) (PImage img) [(''top_k'', PInt top_k)] w1
                in case r of
                     Inl err \<Rightarrow> (Inl err, self, w2)
                   | Inr results \<Rightarrow>
                       (Inr [(''results'', results),
                             (''runtime_s'', PFloat (last_runtime_s self)),
                             (''model'', PStr (model_id self)),
                             (''task'', PStr (task self))], self, w2))))"

definition ImageModelRunner_run :: "env \<Rightarrow> pyval \<Rightarrow> kwargs \<Rightarrow> (string \<times> pyval) list action" where
  "ImageModelRunner_run e user_input kw =
     ensure_initialized (timeit (ImageModelRunner_run_body e user_input kw))"

subsection \<open>Method dispatch and the factories\<close>

definition load :: "env \<Rightarrow> unit action" where
  "load e self = (case cls self of TextModelRunner \<Rightarrow> TextModelRunner_load e self
                                 | ImageModelRunner \<Rightarrow> ImageModelRunner_load e self)"

definition run :: "env \<Rightarrow> pyval \<Rightarrow> kwargs \<Rightarrow> (string \<times> pyval) list action" where
  "run e user_input kw self =
     (case cls self of TextModelRunner \<Rightarrow> TextModelRunner_run user_input kw self
                     | ImageModelRunner \<Rightarrow> ImageModelRunner_run e user_input kw self)"

text \<open>The method \<^verbatim>\<open>run\<close> as each class writes it, under its two decorators.\<close>

definition run_body :: "env \<Rightarrow> pyval \<Rightarrow> kwargs \<Rightarrow> (string \<times> pyval) list action" where
  "run_body e user_input kw self =
     (case cls self of TextModelRunner \<Rightarrow> TextModelRunner_run_body user_input kw self
                     | ImageModelRunner \<Rightarrow> ImageModelRunner_run_body e user_input kw self)"

text \<open>The dataclass constructor: the four fields given, the others at their defaults.\<close>

definition new_runner :: "runner_class \<Rightarrow> string \<Rightarrow> string \<Rightarrow> string \<Rightarrow> string \<Rightarrow> runner" where
  "new_runner c mid t cat descr =
     \<lparr>cls = c, model_id = mid, task = t, category = cat, short_description = descr,
      priv_initialized = False, priv_pipe = None, last_runtime_s = 0,
      priv_logger_enabled = None\<rparr>"

definition make_text_sentiment_runner :: runner where
  "make_text_sentiment_runner =
     new_runner TextModelRunner ''distilbert-base-uncased-finetuned-sst-2-english''
       ''sentiment-analysis'' ''Text''
       ''Binary sentiment (POSITIVE/NEGATIVE) for short English text.''"

definition make_image_classifier_runner :: runner where
  "make_image_classifier_runner =
     new_runner ImageModelRunner ''google/vit-base-patch16-224''
       ''image-classification'' ''Vision''
       ''ImageNet-style image classification using ViT base.''"

section \<open>The public interface as operations on a runner\<close>

text \<open>
  The presentation shell calls \<^verbatim>\<open>load()\<close>, \<^verbatim>\<open>run(input, **kwargs)\<close>, \<^verbatim>\<open>meta()\<close> and
  \<^verbatim>\<open>describe()\<close>, and catches whatever they raise. An operation is run against the
  external libraries as they are at that moment, so a sequence of operations pairs
  each one with its environment.
\<close>

datatype op = Load | Run pyval kwargs | Meta | Describe

definition step :: "env \<Rightarrow> op \<Rightarrow> runner \<Rightarrow> world \<Rightarrow> (pyerr + pyval) \<times> runner \<times> world" where
  "step e a self w =
     (case a of
        Load \<Rightarrow> (case load e self w of (res, self', w') \<Rightarrow> (map_sum id (\<lambda>_. PNone) res, self', w'))
      | Run x kw \<Rightarrow> (case run e x kw self w of (res, self', w') \<Rightarrow> (map_sum id PDict res, self', w'))
      | Meta \<Rightarrow> (Inr (PDict (map (\<lambda>(k, v). (k, PStr v)) (meta self))), self, w)
      | Describe \<Rightarrow> (Inr (PStr (describe self)), self, w))"

fun exec :: "(env \<times> op) list \<Rightarrow> runner \<Rightarrow> world \<Rightarrow> runner \<times> world" where
  "exec [] self w = (self, w)"
| "exec ((e, a) # rest) self w = (case step e a self w of (_, self', w') \<Rightarrow> exec rest self' w')"

text \<open>Reading a result: the list stored under \<^verbatim>\<open>"results"\<close>, and whether a call raised a
  type error.\<close>

definition result_list :: "pyerr + (string \<times> pyval) list \<Rightarrow> pyval list option" where
  "result_list res =
     (case res of
        Inl _ \<Rightarrow> None
      | Inr d \<Rightarrow> (case map_of d ''results'' of Some (PList xs) \<Rightarrow> Some xs | _ \<Rightarrow> None))"

definition is_type_error :: "pyerr + 'a \<Rightarrow> bool" where
  "is_type_error res = (case res of Inl (TypeError _) \<Rightarrow> True | _ \<Rightarrow> False)"

section \<open>Concrete environments for the examples\<close>

text \<open>
  A model hub that answers the two tasks of the factories, a sentiment pipeline that
  scores a string, or each string of a list, and an image classifier with four labels
  that returns the \<^verbatim>\<open>top_k\<close> best, and a third task: an object detector, whose
  pipeline has no \<^verbatim>\<open>top_k\<close> option, skips the options it does not know and returns
  every object it finds. One image file exists, and the interpreter has its default
  limit of 4300 digits.
\<close>

definition positive :: pyval where
  "positive = PDict [(''label'', PStr ''POSITIVE''), (''score'', PFloat 1)]"

definition sentiment_pipe :: pipe where
  "sentiment_pipe =
     Pipe (\<lambda>x kw. case x of
                     PStr s \<Rightarrow> Inr (PList [positive])
                   | PList xs \<Rightarrow> Inr (PList (map (\<lambda>_. positive) xs))
                   | _ \<Rightarrow> Inl (ValueError ''unsupported input''))"

definition labels :: "pyval list" where
  "labels = map (\<lambda>l. PDict [(''label'', PStr l), (''score'', PFloat (1 / 4))])
              [''tabby'', ''tiger cat'', ''lynx'', ''fox'']"

definition classifier_pipe :: pipe where
  "classifier_pipe =
     Pipe (\<lambda>x kw. case map_of kw ''top_k'' of
                     Some (PInt k) \<Rightarrow> Inr (PList (take (nat k) labels))
                   | _ \<Rightarrow> Inr (PList labels))"

definition detections :: "pyval list" where
  "detections =
     [PDict [(''score'', PFloat (9 / 10)), (''label'', PStr ''cat''),
             (''box'', PDict [(''xmin'', PInt 10), (''ymin'', PInt 20),
                              (''xmax'', PInt 110), (''ymax'', PInt 90)])],
      PDict [(''score'', PFloat (3 / 4)), (''label'', PStr ''couch''),
             (''box'', PDict [(''xmin'', PInt 0), (''ymin'', PInt 40),
                              (''xmax'', PInt 200), (''ymax'', PInt 120)])]]"

definition detector_pipe :: pipe where
  "detector_pipe = Pipe (\<lambda>x kw. Inr (PList detections))"

definition hub :: env where
  "hub = \<lparr>pipeline = (\<lambda>t m. if t = ''sentiment-analysis'' then Inr sentiment_pipe
                             else if t = ''image-classification'' then Inr classifier_pipe
                             else if t = ''object-detection'' then Inr detector_pipe
                             else Inl (OtherError ''KeyError'' t)),
          image_open = (\<lambda>p. if p = ''cat.png'' then Inr (PIL_Image ''RGBA'' [1, 2, 3, 4])
                             else Inl (OtherError ''FileNotFoundError'' p)),
          image_convert = (\<lambda>im m. Inr (PIL_Image m (pixels im))),
          int_max_str_digits = 4300\<rparr>"

definition offline :: env where
  "offline = hub\<lparr>pipeline := (\<lambda>t m. Inl (OtherError ''OSError'' ''no connection''))\<rparr>"

text \<open>A fresh process whose clock reads 0, 1, 4, 9, ...\<close>

definition boot :: world where
  "boot = \<lparr>clock = (\<lambda>n. real (n * n)), ticks = 0, stdout = [], calls = []\<rparr>"

text \<open>The two runners of the factories after \<^verbatim>\<open>load()\<close> against the hub, and the
  world that leaves.\<close>

definition text_loaded :: runner where
  "text_loaded = fst (snd (load hub make_text_sentiment_runner boot))"

definition text_world :: world where
  "text_world = snd (snd (load hub make_text_sentiment_runner boot))"

definition image_loaded :: runner where
  "image_loaded = fst (snd (load hub make_image_classifier_runner boot))"

definition image_world :: world where
  "image_world = snd (snd (load hub make_image_classifier_runner boot))"

text \<open>An image runner built for the object detector, and the same after \<^verbatim>\<open>load()\<close>.\<close>

definition detector_runner :: runner where
  "detector_runner =
     new_runner ImageModelRunner ''facebook/detr-resnet-50'' ''object-detection'' ''Vision''
       ''Object detection with DETR.''"

definition detector_loaded :: runner where
  "detector_loaded = fst (snd (load hub detector_runner boot))"


text \<open>The world after the text runner was loaded, when the system clock is then set
  back: the next reading is 10 and the one after it is 5.\<close>

definition set_back :: world where
  "set_back = text_world\<lparr>clock := (\<lambda>n. if n = 2 then 10 else 5)\<rparr>"

section \<open>Properties of the decorators\<close>

lemma time_ticks: "time w = (clock w (ticks w), w\<lparr>ticks := Suc (ticks w)\<rparr>)"
  by (simp add: time_def)

text \<open>What \<^verbatim>\<open>timeit\<close> does to any method: the outcome and the effects of the wrapped
  call, two clock readings around it, and their difference on the instance.\<close>

lemma timeit_unfold:
  assumes "fn self (w\<lparr>ticks := Suc (ticks w)\<rparr>) = (res, self1, w2)"
  shows "timeit fn self w =
           (res, self1\<lparr>last_runtime_s := clock w2 (ticks w2) - clock w (ticks w)\<rparr>,
            w2\<lparr>ticks := Suc (ticks w2)\<rparr>)"
  using assms by (simp add: timeit_def time_def)

lemma ensure_initialized_pass: "priv_initialized self \<Longrightarrow> ensure_initialized fn self w = fn self w"
  by (simp add: ensure_initialized_def)

lemma ensure_initialized_block:
  "\<not> priv_initialized self \<Longrightarrow>
     ensure_initialized fn self w =
       (Inl (RuntimeError ''Model is not initialized. Call `load()` first.''), self, w)"
  by (simp add: ensure_initialized_def)

section \<open>What load and run do to the runner and the clock\<close>

lemma log_frame [simp]:
  "clock (LoggingMixin_log self m w) = clock w"
  "ticks (LoggingMixin_log self m w) = ticks w"
  "calls (LoggingMixin_log self m w) = calls w"
  by (simp_all add: LoggingMixin_log_def)

text \<open>\<^verbatim>\<open>load()\<close> raises exactly when the construction of the pipeline raises, with the
  same exception; either way the time is recorded, and nothing is invoked.\<close>

lemma load_raises:
  assumes "pipeline e (task r) (model_id r) = Inl err"
  shows "\<exists>w'. load e r w =
            (Inl err, r\<lparr>last_runtime_s := clock w (Suc (ticks w)) - clock w (ticks w)\<rparr>, w')
          \<and> clock w' = clock w \<and> ticks w' = Suc (Suc (ticks w)) \<and> calls w' = calls w"
  using assms
  by (cases "cls r")
     (simp_all add: load_def TextModelRunner_load_def ImageModelRunner_load_def
        TextModelRunner_load_body_def ImageModelRunner_load_body_def timeit_def time_def)

lemma load_returns:
  assumes "pipeline e (task r) (model_id r) = Inr p"
  shows "\<exists>w'. load e r w =
            (Inr (), r\<lparr>priv_pipe := Some p, priv_initialized := True,
                        last_runtime_s := clock w (Suc (ticks w)) - clock w (ticks w)\<rparr>, w')
          \<and> clock w' = clock w \<and> ticks w' = Suc (Suc (ticks w)) \<and> calls w' = calls w"
  using assms
  by (cases "cls r")
     (simp_all add: load_def TextModelRunner_load_def ImageModelRunner_load_def
        TextModelRunner_load_body_def ImageModelRunner_load_body_def timeit_def time_def)

lemma load_cases:
  assumes "load e r w = (res, r', w')"
  obtains (raises) err where "pipeline e (task r) (model_id r) = Inl err" "res = Inl err"
      "r' = r\<lparr>last_runtime_s := clock w (Suc (ticks w)) - clock w (ticks w)\<rparr>"
  | (returns) p where "pipeline e (task r) (model_id r) = Inr p" "res = Inr ()"
      "r' = r\<lparr>priv_pipe := Some p, priv_initialized := True,
               last_runtime_s := clock w (Suc (ticks w)) - clock w (ticks w)\<rparr>"
proof (cases "pipeline e (task r) (model_id r)")
  case (Inl err)
  from load_raises [OF Inl, of w] assms show ?thesis by (auto intro: raises [OF Inl])
next
  case (Inr p)
  from load_returns [OF Inr, of w] assms show ?thesis by (auto intro: returns [OF Inr])
qed

lemma load_keeps_initialized:
  "priv_initialized r \<Longrightarrow> load e r w = (res, r', w') \<Longrightarrow> priv_initialized r'"
  by (erule load_cases) auto

text \<open>The body of \<^verbatim>\<open>run\<close> assigns no field of the runner and reads no clock.\<close>

lemma text_body_frame:
  "TextModelRunner_run_body x kw r w = (res, r', w') \<Longrightarrow>
     r' = r \<and> clock w' = clock w \<and> ticks w' = ticks w"
  by (auto simp: TextModelRunner_run_body_def call_pipe_def Let_def
      split: sum.splits option.splits prod.splits)

lemma image_body_frame:
  "ImageModelRunner_run_body e x kw r w = (res, r', w') \<Longrightarrow>
     r' = r \<and> clock w' = clock w \<and> ticks w' = ticks w"
  by (auto simp: ImageModelRunner_run_body_def call_pipe_def Let_def
      split: sum.splits option.splits prod.splits)

lemma run_body_frame:
  "run_body e x kw r w = (res, r', w') \<Longrightarrow> r' = r \<and> clock w' = clock w \<and> ticks w' = ticks w"
  by (cases "cls r") (auto simp: run_body_def dest: text_body_frame image_body_frame)

text \<open>\<^verbatim>\<open>run()\<close> on an initialized runner: the guard lets the call through, the body runs
  after the first clock reading, and the second reading follows it.\<close>

lemma run_loaded:
  assumes "priv_initialized r"
    and "run_body e x kw r (w\<lparr>ticks := Suc (ticks w)\<rparr>) = (res, r1, w2)"
  shows "run e x kw r w =
           (res, r\<lparr>last_runtime_s := clock w (Suc (ticks w)) - clock w (ticks w)\<rparr>,
            w2\<lparr>ticks := Suc (Suc (ticks w))\<rparr>)"
proof -
  from run_body_frame [OF assms(2)]
  have f: "r1 = r" "clock w2 = clock w" "ticks w2 = Suc (ticks w)" by simp_all
  show ?thesis
  proof (cases "cls r")
    case TextModelRunner
    with assms(2)
    have "TextModelRunner_run_body x kw r (w\<lparr>ticks := Suc (ticks w)\<rparr>) = (res, r1, w2)"
      by (simp add: run_body_def)
    from timeit_unfold [where fn = "TextModelRunner_run_body x kw" and w = w, OF this]
      TextModelRunner assms(1) f
    show ?thesis
      by (simp add: run_def TextModelRunner_run_def ensure_initialized_pass)
  next
    case ImageModelRunner
    with assms(2)
    have "ImageModelRunner_run_body e x kw r (w\<lparr>ticks := Suc (ticks w)\<rparr>) = (res, r1, w2)"
      by (simp add: run_body_def)
    from timeit_unfold [where fn = "ImageModelRunner_run_body e x kw" and w = w, OF this]
      ImageModelRunner assms(1) f
    show ?thesis
      by (simp add: run_def ImageModelRunner_run_def ensure_initialized_pass)
  qed
qed

lemma run_keeps_initialized:
  assumes i: "priv_initialized r" and h: "run e x kw r w = (res, r', w')"
  shows "priv_initialized r'"
proof -
  obtain res1 r1 w2 where b: "run_body e x kw r (w\<lparr>ticks := Suc (ticks w)\<rparr>) = (res1, r1, w2)"
    by (cases "run_body e x kw r (w\<lparr>ticks := Suc (ticks w)\<rparr>)") auto
  from run_loaded [OF i b] h i show ?thesis by auto
qed

lemma step_keeps_initialized:
  "priv_initialized r \<Longrightarrow> step e a r w = (res, r', w') \<Longrightarrow> priv_initialized r'"
  by (cases a)
     (auto simp: step_def split: prod.splits dest: load_keeps_initialized run_keeps_initialized)

lemma exec_keeps_initialized:
  "priv_initialized r \<Longrightarrow> priv_initialized (fst (exec ops r w))"
proof (induction ops arbitrary: r w)
  case Nil
  then show ?case by simp
next
  case (Cons p ops)
  obtain e a where p: "p = (e, a)" by (cases p)
  obtain res r' w' where s: "step e a r w = (res, r', w')" by (cases "step e a r w") auto
  from step_keeps_initialized [OF Cons.prems s] have "priv_initialized r'" .
  from Cons.IH [OF this] p s show ?case by simp
qed

lemma run_loaded_fst:
  "priv_initialized r \<Longrightarrow>
     fst (run e x kw r w) = fst (run_body e x kw r (w\<lparr>ticks := Suc (ticks w)\<rparr>))"
  by (cases "run_body e x kw r (w\<lparr>ticks := Suc (ticks w)\<rparr>)") (simp add: run_loaded)

lemma run_loaded_runtime:
  "priv_initialized r \<Longrightarrow>
     last_runtime_s (fst (snd (run e x kw r w))) = clock w (Suc (ticks w)) - clock w (ticks w)"
  by (cases "run_body e x kw r (w\<lparr>ticks := Suc (ticks w)\<rparr>)") (simp add: run_loaded)

lemma run_loaded_calls:
  "priv_initialized r \<Longrightarrow>
     calls (snd (snd (run e x kw r w))) =
       calls (snd (snd (run_body e x kw r (w\<lparr>ticks := Suc (ticks w)\<rparr>))))"
  by (cases "run_body e x kw r (w\<lparr>ticks := Suc (ticks w)\<rparr>)") (simp add: run_loaded)

subsection \<open>The shape of a result\<close>

lemma text_body_result:
  assumes "TextModelRunner_run_body x kw r w = (Inr d, r', w')"
  shows "\<exists>P out. priv_pipe r = Some P \<and> invoke P x [] = Inr out
           \<and> d = [(''results'', out), (''runtime_s'', PFloat (last_runtime_s r)),
                  (''model'', PStr (model_id r)), (''task'', PStr (task r))]
           \<and> calls w' = calls w @ [(x, [])]"
  using assms
  by (auto simp: TextModelRunner_run_body_def call_pipe_def Let_def
      split: sum.splits option.splits prod.splits)

lemma image_body_result:
  assumes "ImageModelRunner_run_body e x kw r w = (Inr d, r', w')"
  shows "\<exists>P img k out. priv_pipe r = Some P \<and> accept_image e x = Inr img
           \<and> py_int (int_max_str_digits e) (dict_get kw ''top_k'' (PInt 5)) = Inr k
           \<and> invoke P (PImage img) [(''top_k'', PInt k)] = Inr out
           \<and> d = [(''results'', out), (''runtime_s'', PFloat (last_runtime_s r)),
                  (''model'', PStr (model_id r)), (''task'', PStr (task r))]
           \<and> calls w' = calls w @ [(PImage img, [(''top_k'', PInt k)])]"
  using assms
  by (auto simp: ImageModelRunner_run_body_def call_pipe_def Let_def preprocess_def
      split: sum.splits option.splits prod.splits)

text \<open>
  Every result \<^verbatim>\<open>run()\<close> returns, for either runner: the pipeline was invoked once, its
  return value is under \<^verbatim>\<open>"results"\<close>, the model identifier and the task of the runner
  are echoed, and \<^verbatim>\<open>"runtime_s"\<close> holds the value \<^verbatim>\<open>last_runtime_s\<close> had when
  \<^verbatim>\<open>run()\<close> was called.
\<close>

lemma run_result_fields:
  assumes "run e x kw r w = (Inr d, r', w')"
  shows "\<exists>P arg opts out. priv_pipe r = Some P \<and> invoke P arg opts = Inr out
           \<and> d = [(''results'', out), (''runtime_s'', PFloat (last_runtime_s r)),
                  (''model'', PStr (model_id r)), (''task'', PStr (task r))]
           \<and> calls w' = calls w @ [(arg, opts)]"
proof -
  from assms have i: "priv_initialized r"
    by (cases "cls r")
       (auto simp: run_def TextModelRunner_run_def ImageModelRunner_run_def
          ensure_initialized_def split: if_splits)
  obtain res1 r1 w2 where b: "run_body e x kw r (w\<lparr>ticks := Suc (ticks w)\<rparr>) = (res1, r1, w2)"
    by (cases "run_body e x kw r (w\<lparr>ticks := Suc (ticks w)\<rparr>)") auto
  from run_loaded [OF i b] assms
  have r: "res1 = Inr d" "w' = w2\<lparr>ticks := Suc (Suc (ticks w))\<rparr>"
    by simp_all
  show ?thesis
  proof (cases "cls r")
    case TextModelRunner
    with b r
    have "TextModelRunner_run_body x kw r (w\<lparr>ticks := Suc (ticks w)\<rparr>) = (Inr d, r1, w2)"
      by (simp add: run_body_def)
    from text_body_result [OF this] r show ?thesis by auto
  next
    case ImageModelRunner
    with b r
    have "ImageModelRunner_run_body e x kw r (w\<lparr>ticks := Suc (ticks w)\<rparr>) = (Inr d, r1, w2)"
      by (simp add: run_body_def)
    from image_body_result [OF this] r show ?thesis by auto
  qed
qed



lemma result_list_results [simp]:
  "result_list (Inr ((''results'', PList xs) # d)) = Some xs"
  by (simp add: result_list_def)

section \<open>The example runners, evaluated\<close>

lemma make_text_fields [simp]:
  "cls make_text_sentiment_runner = TextModelRunner"
  "task make_text_sentiment_runner = ''sentiment-analysis''"
  "\<not> priv_initialized make_text_sentiment_runner"
  "priv_pipe make_text_sentiment_runner = None"
  by (simp_all add: make_text_sentiment_runner_def new_runner_def)

lemma make_image_fields [simp]:
  "cls make_image_classifier_runner = ImageModelRunner"
  "task make_image_classifier_runner = ''image-classification''"
  "\<not> priv_initialized make_image_classifier_runner"
  "priv_pipe make_image_classifier_runner = None"
  by (simp_all add: make_image_classifier_runner_def new_runner_def)

lemma hub_text:
  "pipeline hub (task make_text_sentiment_runner) (model_id make_text_sentiment_runner)
     = Inr sentiment_pipe"
  by (simp add: hub_def)

lemma hub_image:
  "pipeline hub (task make_image_classifier_runner) (model_id make_image_classifier_runner)
     = Inr classifier_pipe"
  by (simp add: hub_def)

lemma text_load_fixture:
  "load hub make_text_sentiment_runner boot = (Inr (), text_loaded, text_world)"
  using load_returns [OF hub_text, of boot] by (auto simp: text_loaded_def text_world_def)

lemma image_load_fixture:
  "load hub make_image_classifier_runner boot = (Inr (), image_loaded, image_world)"
  using load_returns [OF hub_image, of boot] by (auto simp: image_loaded_def image_world_def)

lemma text_loaded_eq:
  "text_loaded = make_text_sentiment_runner
     \<lparr>priv_pipe := Some sentiment_pipe, priv_initialized := True, last_runtime_s := 1\<rparr>"
  using load_returns [OF hub_text, of boot] by (auto simp: text_loaded_def boot_def)

lemma image_loaded_eq:
  "image_loaded = make_image_classifier_runner
     \<lparr>priv_pipe := Some classifier_pipe, priv_initialized := True, last_runtime_s := 1\<rparr>"
  using load_returns [OF hub_image, of boot] by (auto simp: image_loaded_def boot_def)

lemma text_loaded_fields [simp]:
  "cls text_loaded = TextModelRunner" "priv_initialized text_loaded"
  "priv_pipe text_loaded = Some sentiment_pipe" "last_runtime_s text_loaded = 1"
  "model_id text_loaded = ''distilbert-base-uncased-finetuned-sst-2-english''"
  "task text_loaded = ''sentiment-analysis''"
  by (simp_all add: text_loaded_eq make_text_sentiment_runner_def new_runner_def)

lemma image_loaded_fields [simp]:
  "cls image_loaded = ImageModelRunner" "priv_initialized image_loaded"
  "priv_pipe image_loaded = Some classifier_pipe" "last_runtime_s image_loaded = 1"
  by (simp_all add: image_loaded_eq)

lemma text_world_fields [simp]:
  "clock text_world = (\<lambda>n. real (n * n))" "ticks text_world = 2" "calls text_world = []"
  using load_returns [OF hub_text, of boot] by (auto simp: text_world_def boot_def)

lemma image_world_fields [simp]:
  "clock image_world = (\<lambda>n. real (n * n))" "ticks image_world = 2" "calls image_world = []"
  using load_returns [OF hub_image, of boot] by (auto simp: image_world_def boot_def)

lemma text_run_string:
  "fst (run_body hub (PStr s) [] text_loaded w) =
     Inr [(''results'', PList [positive]),
          (''runtime_s'', PFloat 1),
          (''model'', PStr ''distilbert-base-uncased-finetuned-sst-2-english''),
          (''task'', PStr ''sentiment-analysis'')]"
  by (simp add: run_body_def TextModelRunner_run_body_def call_pipe_def sentiment_pipe_def)





lemma hub_limit [simp]: "int_max_str_digits hub = 4300"
  by (simp add: hub_def)

lemma hub_detector:
  "pipeline hub (task detector_runner) (model_id detector_runner) = Inr detector_pipe"
  by (simp add: hub_def detector_runner_def new_runner_def)


lemma detector_loaded_eq:
  "detector_loaded = detector_runner
     \<lparr>priv_pipe := Some detector_pipe, priv_initialized := True, last_runtime_s := 1\<rparr>"
  using load_returns [OF hub_detector, of boot] by (auto simp: detector_loaded_def boot_def)

lemma detector_loaded_fields [simp]:
  "cls detector_loaded = ImageModelRunner" "priv_initialized detector_loaded"
  "priv_pipe detector_loaded = Some detector_pipe"
  by (simp_all add: detector_loaded_eq detector_runner_def new_runner_def)

lemma offline_load:
  "fst (load offline make_text_sentiment_runner boot)
     = Inl (OtherError ''OSError'' ''no connection'')"
proof -
  have "pipeline offline (task make_text_sentiment_runner) (model_id make_text_sentiment_runner)
          = Inl (OtherError ''OSError'' ''no connection'')"
    by (simp add: offline_def)
  from load_raises [OF this, of boot] show ?thesis by auto
qed

section \<open>Running before loading\<close>

text \<open>
  Claim C1. For the text runner and the image runner, for every input and every option
  set, \<^verbatim>\<open>run()\<close> on a runner whose initialization flag is not set raises the
  \<^verbatim>\<open>RuntimeError\<close> of the initialization guard, and nothing of the wrapped method has
  happened: the runner and the world (clock readings taken, lines printed, pipeline
  invocations) are as they were.
\<close>

theorem run_before_load_fails:
  "\<not> priv_initialized r \<Longrightarrow>
     run e x kw r w =
       (Inl (RuntimeError ''Model is not initialized. Call `load()` first.''), r, w)"
  by (cases "cls r")
     (simp_all add: run_def TextModelRunner_run_def ImageModelRunner_run_def
        ensure_initialized_block)

theorem run_before_load_fails_witness:
  "\<not> priv_initialized make_image_classifier_runner \<and>
   run hub (PStr ''cat.png'') [(''top_k'', PInt 1)] make_image_classifier_runner boot =
     (Inl (RuntimeError ''Model is not initialized. Call `load()` first.''),
      make_image_classifier_runner, boot)"
  using run_before_load_fails
          [of make_image_classifier_runner hub "PStr ''cat.png''" "[(''top_k'', PInt 1)]" boot]
  by simp

section \<open>The lifecycle\<close>

text \<open>
  Claim C2. Once \<^verbatim>\<open>load()\<close> has returned, the initialization flag (and the public
  property that reads it) is true, and it is still true after any sequence of
  \<^verbatim>\<open>load\<close>, \<^verbatim>\<open>run\<close>, \<^verbatim>\<open>meta\<close> and \<^verbatim>\<open>describe\<close> calls, whatever their arguments, whether
  they return or raise, and whatever the external libraries do meanwhile.
\<close>

theorem loaded_stays_loaded:
  assumes "load e r w = (Inr u, r', w')"
  shows "priv_initialized r' \<and> initialized r' \<and> priv_initialized (fst (exec ops r' w''))"
proof -
  from assms have i: "priv_initialized r'" by (rule load_cases) auto
  with exec_keeps_initialized [OF i] show ?thesis by (simp add: initialized_def)
qed

theorem loaded_stays_loaded_witness:
  "load hub make_text_sentiment_runner boot = (Inr (), text_loaded, text_world) \<and>
   priv_initialized text_loaded \<and> initialized text_loaded \<and>
   priv_initialized (fst (exec [(hub, Run (PStr ''I love this!'') []), (offline, Load),
                                  (hub, Run (PInt 3) []), (hub, Meta), (hub, Describe)]
                            text_loaded text_world))"
  using loaded_stays_loaded
          [OF text_load_fixture,
           of "[(hub, Run (PStr ''I love this!'') []), (offline, Load),
                (hub, Run (PInt 3) []), (hub, Meta), (hub, Describe)]" text_world]
    text_load_fixture
  by blast

text \<open>
  Claim C8. When \<^verbatim>\<open>load()\<close> is called on an unloaded runner (flag false, no pipeline),
  it raises exactly when the construction of the pipeline raises, and with that very
  exception; and when it raises, the flag is still false and the pipeline reference
  still empty.
\<close>

theorem failed_load_stays_unloaded:
  assumes "\<not> priv_initialized r" "priv_pipe r = None" "load e r w = (res, r', w')"
  shows "(res = Inl err \<longleftrightarrow> pipeline e (task r) (model_id r) = Inl err)
       \<and> (res = Inl err \<longrightarrow> \<not> priv_initialized r' \<and> priv_pipe r' = None)"
  using assms(3)
proof (cases rule: load_cases)
  case (raises err')
  with assms(1,2) show ?thesis by auto
next
  case (returns p)
  then show ?thesis by auto
qed

theorem failed_load_stays_unloaded_witness:
  "\<not> priv_initialized make_text_sentiment_runner \<and>
   priv_pipe make_text_sentiment_runner = None \<and>
   fst (load offline make_text_sentiment_runner boot)
     = Inl (OtherError ''OSError'' ''no connection'') \<and>
   pipeline offline (task make_text_sentiment_runner) (model_id make_text_sentiment_runner)
     = Inl (OtherError ''OSError'' ''no connection'') \<and>
   \<not> priv_initialized (fst (snd (load offline make_text_sentiment_runner boot))) \<and>
   priv_pipe (fst (snd (load offline make_text_sentiment_runner boot))) = None"
proof -
  have "load offline make_text_sentiment_runner boot =
          (fst (load offline make_text_sentiment_runner boot),
           fst (snd (load offline make_text_sentiment_runner boot)),
           snd (snd (load offline make_text_sentiment_runner boot)))"
    by simp
  from failed_load_stays_unloaded [OF _ _ this, of "OtherError ''OSError'' ''no connection''"]
    offline_load
  show ?thesis by simp
qed

section \<open>Timing\<close>

text \<open>
  Claim C3, as the code has it. Every \<^verbatim>\<open>run()\<close> that gets past the initialization
  guard, whether the wrapped call returns or raises, takes exactly two readings of the
  wall clock, one before the wrapped call and one after it, and sets \<^verbatim>\<open>last_runtime_s\<close>
  to the second minus the first; that number is non-negative whenever the second
  reading is not earlier than the first. The outcome of \<^verbatim>\<open>run()\<close>, return value or
  exception, is the outcome of the wrapped call, unchanged.
\<close>

theorem run_records_elapsed_time:
  assumes "priv_initialized r" and "run e x kw r w = (res, r', w')"
  shows "last_runtime_s r' = clock w (Suc (ticks w)) - clock w (ticks w)
       \<and> (clock w (ticks w) \<le> clock w (Suc (ticks w)) \<longrightarrow> 0 \<le> last_runtime_s r')
       \<and> res = fst (run_body e x kw r (snd (time w)))
       \<and> ticks w' = ticks w + 2"
proof -
  obtain res1 r1 w2 where b: "run_body e x kw r (w\<lparr>ticks := Suc (ticks w)\<rparr>) = (res1, r1, w2)"
    by (cases "run_body e x kw r (w\<lparr>ticks := Suc (ticks w)\<rparr>)") auto
  from run_loaded [OF assms(1) b] assms(2) b show ?thesis
    by (auto simp: time_def)
qed

theorem run_records_elapsed_time_witness:
  "priv_initialized text_loaded \<and>
   clock text_world (ticks text_world) \<le> clock text_world (Suc (ticks text_world)) \<and>
   last_runtime_s (fst (snd (run hub (PInt 7) [] text_loaded text_world))) = 5 \<and>
   0 \<le> last_runtime_s (fst (snd (run hub (PInt 7) [] text_loaded text_world))) \<and>
   fst (run hub (PInt 7) [] text_loaded text_world) =
     fst (run_body hub (PInt 7) [] text_loaded (snd (time text_world)))"
proof -
  have i: "priv_initialized text_loaded" by simp
  have "run hub (PInt 7) [] text_loaded text_world =
          (fst (run hub (PInt 7) [] text_loaded text_world),
           fst (snd (run hub (PInt 7) [] text_loaded text_world)),
           snd (snd (run hub (PInt 7) [] text_loaded text_world)))"
    by simp
  from run_records_elapsed_time [OF i this] show ?thesis by simp
qed

text \<open>
  The claim as the specification states it, with no condition on the clock, fails:
  \<^verbatim>\<open>time.time()\<close> is the wall clock, which can be set back between two readings. On a
  loaded text runner, with the clock reading 10 before the call and 5 after it, a
  successful \<^verbatim>\<open>run("hi")\<close> leaves \<^verbatim>\<open>last_runtime_s\<close> at -5.
\<close>

theorem run_negative_runtime_counterexample:
  "priv_initialized text_loaded \<and>
   fst (run hub (PStr ''hi'') [] text_loaded set_back) =
     Inr [(''results'', PList [positive]),
          (''runtime_s'', PFloat 1),
          (''model'', PStr ''distilbert-base-uncased-finetuned-sst-2-english''),
          (''task'', PStr ''sentiment-analysis'')] \<and>
   last_runtime_s (fst (snd (run hub (PStr ''hi'') [] text_loaded set_back))) = - 5 \<and>
   \<not> 0 \<le> last_runtime_s (fst (snd (run hub (PStr ''hi'') [] text_loaded set_back)))"
  by (simp add: run_loaded_fst run_loaded_runtime text_run_string) (simp add: set_back_def)

text \<open>
  Claim C4 at a concrete call. The text runner of the factory is loaded while the clock
  goes from 0 to 1, then \<^verbatim>\<open>run("I love this!")\<close> is called while the clock goes from 4
  to 9. The result holds the pipeline's list, the model identifier and the task, but
  its \<^verbatim>\<open>"runtime_s"\<close> is 1, the duration of \<^verbatim>\<open>load()\<close>: the body of \<^verbatim>\<open>run\<close> reads
  \<^verbatim>\<open>last_runtime_s\<close> before \<^verbatim>\<open>timeit\<close> stores the 5 seconds this invocation took.
\<close>

theorem run_result_holds_previous_runtime:
  "load hub make_text_sentiment_runner boot = (Inr (), text_loaded, text_world) \<and>
   fst (run hub (PStr ''I love this!'') [] text_loaded text_world) =
     Inr [(''results'', PList [positive]),
          (''runtime_s'', PFloat 1),
          (''model'', PStr ''distilbert-base-uncased-finetuned-sst-2-english''),
          (''task'', PStr ''sentiment-analysis'')] \<and>
   last_runtime_s (fst (snd (run hub (PStr ''I love this!'') [] text_loaded text_world))) = 5"
  by (simp add: text_load_fixture run_loaded_fst run_loaded_runtime text_run_string)

section \<open>Inputs and options\<close>

text \<open>
  Claim C5. On an initialized image runner, \<^verbatim>\<open>run()\<close> with an input that is neither a
  string nor an image object raises the type error of the input check, and the
  pipeline has not been invoked: the record of invocations is as it was.
\<close>

theorem image_run_rejects_other_types:
  assumes "cls r = ImageModelRunner" "priv_initialized r"
    and "type_name x \<noteq> ''str''" "type_name x \<noteq> ''Image''"
  shows "\<exists>r' w'. run e x kw r w =
           (Inl (TypeError ''user_input must be a path or PIL.Image.Image for image tasks.''),
            r', w')
         \<and> calls w' = calls w"
proof -
  from assms(3,4)
  have "accept_image e x =
          Inl (TypeError ''user_input must be a path or PIL.Image.Image for image tasks.'')"
    by (cases x) (simp_all add: accept_image_def)
  with assms(1)
  have "run_body e x kw r (w\<lparr>ticks := Suc (ticks w)\<rparr>) =
          (Inl (TypeError ''user_input must be a path or PIL.Image.Image for image tasks.''), r,
           w\<lparr>ticks := Suc (ticks w)\<rparr>)"
    by (simp add: run_body_def ImageModelRunner_run_body_def)
  from run_loaded [OF assms(2) this] show ?thesis by simp
qed

theorem image_run_rejects_other_types_witness:
  "cls image_loaded = ImageModelRunner \<and> priv_initialized image_loaded \<and>
   type_name (PInt 7) \<noteq> ''str'' \<and> type_name (PInt 7) \<noteq> ''Image'' \<and>
   (\<exists>r' w'. run hub (PInt 7) [(''top_k'', PInt 1)] image_loaded image_world =
           (Inl (TypeError ''user_input must be a path or PIL.Image.Image for image tasks.''),
            r', w')
         \<and> calls w' = calls image_world)"
  using image_run_rejects_other_types
          [of image_loaded "PInt 7" hub "[(''top_k'', PInt 1)]" image_world]
  by simp




text \<open>
  Claim C9, as the code has it. The text runner does not check the type of its input;
  the first thing it does with it is \<^verbatim>\<open>len(user_input)\<close>. On an initialized text runner,
  an input that has no length (\<^verbatim>\<open>None\<close>, a boolean, an integer, a float, an image
  object) makes \<^verbatim>\<open>run()\<close> raise a type error before the pipeline is invoked. An input
  that has a length, a string or not, is handed to the pipeline, and \<^verbatim>\<open>run()\<close> returns
  or raises as the pipeline does.
\<close>

theorem text_run_input_types:
  assumes "cls r = TextModelRunner" "priv_initialized r"
  shows "(type_name x \<in> {''NoneType'', ''bool'', ''int'', ''float'', ''Image''} \<longrightarrow>
            (\<exists>r' w'. run e x kw r w =
               (Inl (TypeError (''object of type '' @ [CHR 0x27] @ type_name x @ [CHR 0x27]
                                  @ '' has no len()'')), r', w')
             \<and> calls w' = calls w))
       \<and> (type_name x \<in> {''str'', ''list'', ''dict''} \<and> priv_pipe r = Some P \<longrightarrow>
            fst (run e x kw r w) =
              map_sum id (\<lambda>out. [(''results'', out), (''runtime_s'', PFloat (last_runtime_s r)),
                                  (''model'', PStr (model_id r)), (''task'', PStr (task r))])
                (invoke P x [])
            \<and> calls (snd (snd (run e x kw r w))) = calls w @ [(x, [])])"
proof (intro conjI impI)
  assume "type_name x \<in> {''NoneType'', ''bool'', ''int'', ''float'', ''Image''}"
  then have "py_len x = Inl (TypeError (''object of type '' @ [CHR 0x27] @ type_name x
                                          @ [CHR 0x27] @ '' has no len()''))"
    by (cases x) simp_all
  with assms(1)
  have "run_body e x kw r (w\<lparr>ticks := Suc (ticks w)\<rparr>) =
          (Inl (TypeError (''object of type '' @ [CHR 0x27] @ type_name x @ [CHR 0x27]
                              @ '' has no len()'')), r,
           w\<lparr>ticks := Suc (ticks w)\<rparr>)"
    by (simp add: run_body_def TextModelRunner_run_body_def)
  from run_loaded [OF assms(2) this]
  show "\<exists>r' w'. run e x kw r w =
               (Inl (TypeError (''object of type '' @ [CHR 0x27] @ type_name x @ [CHR 0x27]
                                  @ '' has no len()'')), r', w')
             \<and> calls w' = calls w"
    by simp
next
  assume a: "type_name x \<in> {''str'', ''list'', ''dict''} \<and> priv_pipe r = Some P"
  then obtain n where "py_len x = Inr n" by (cases x) simp_all
  with a assms(1)
  have b: "fst (run_body e x kw r w0) =
          map_sum id (\<lambda>out. [(''results'', out), (''runtime_s'', PFloat (last_runtime_s r)),
                                  (''model'', PStr (model_id r)), (''task'', PStr (task r))])
                (invoke P x [])
        \<and> calls (snd (snd (run_body e x kw r w0))) = calls w0 @ [(x, [])]" for w0
    by (cases "invoke P x []")
       (simp_all add: run_body_def TextModelRunner_run_body_def call_pipe_def)
  from b [of "w\<lparr>ticks := Suc (ticks w)\<rparr>"]
  show "fst (run e x kw r w) =
              map_sum id (\<lambda>out. [(''results'', out), (''runtime_s'', PFloat (last_runtime_s r)),
                                  (''model'', PStr (model_id r)), (''task'', PStr (task r))])
                (invoke P x [])"
    and "calls (snd (snd (run e x kw r w))) = calls w @ [(x, [])]"
    by (simp_all add: run_loaded_fst [OF assms(2)] run_loaded_calls [OF assms(2)])
qed

theorem text_run_input_types_witness:
  "cls text_loaded = TextModelRunner \<and> priv_initialized text_loaded \<and>
   type_name (PInt 7) \<in> {''NoneType'', ''bool'', ''int'', ''float'', ''Image''} \<and>
   (\<exists>r' w'. run hub (PInt 7) [] text_loaded text_world =
           (Inl (TypeError (''object of type '' @ [CHR 0x27] @ ''int'' @ [CHR 0x27]
                              @ '' has no len()'')), r', w')
         \<and> calls w' = calls text_world) \<and>
   type_name (PList [PStr ''good'']) \<in> {''str'', ''list'', ''dict''} \<and>
   priv_pipe text_loaded = Some sentiment_pipe \<and>
   calls (snd (snd (run hub (PList [PStr ''good'']) [] text_loaded text_world)))
     = [(PList [PStr ''good''], [])]"
  using text_run_input_types [of text_loaded "PInt 7" hub "[]" text_world sentiment_pipe]
        text_run_input_types
          [of text_loaded "PList [PStr ''good'']" hub "[]" text_world sentiment_pipe]
  by simp

text \<open>
  The claim as the specification states it, for every non-string input, fails: a list
  of two strings is not a string, it has a length, and a pipeline that scores each
  element of a list makes \<^verbatim>\<open>run()\<close> return a result.
\<close>

theorem text_run_list_input_counterexample:
  "load hub make_text_sentiment_runner boot = (Inr (), text_loaded, text_world) \<and>
   fst (run hub (PList [PStr ''good'', PStr ''fine'']) [] text_loaded text_world) =
     Inr [(''results'', PList [positive, positive]),
          (''runtime_s'', PFloat 1),
          (''model'', PStr ''distilbert-base-uncased-finetuned-sst-2-english''),
          (''task'', PStr ''sentiment-analysis'')] \<and>
   \<not> is_type_error (fst (run hub (PList [PStr ''good'', PStr ''fine'']) [] text_loaded text_world))"
  by (simp add: text_load_fixture run_loaded_fst is_type_error_def)
     (simp add: run_body_def TextModelRunner_run_body_def call_pipe_def sentiment_pipe_def)

section \<open>Metadata\<close>

text \<open>
  Claim C7. \<^verbatim>\<open>meta()\<close> returns on any runner, initialized or not, and leaves the runner
  and the world as they were. Its name is the model identifier and its category the
  category of the runner, and a \<^verbatim>\<open>load()\<close>, successful or not, changes nothing of what
  \<^verbatim>\<open>meta()\<close> returns.
\<close>

theorem meta_independent_of_load:
  assumes "load e r w = (res, r', w')"
  shows "meta r' = meta r
       \<and> map_of (meta r) ''name'' = Some (model_id r)
       \<and> map_of (meta r) ''category'' = Some (category r)
       \<and> step e1 Meta r w1 = (Inr (PDict (map (\<lambda>(k, v). (k, PStr v)) (meta r))), r, w1)
       \<and> step e2 Meta r' w2 = (Inr (PDict (map (\<lambda>(k, v). (k, PStr v)) (meta r))), r', w2)"
proof -
  from assms have "meta r' = meta r"
    by (rule load_cases)
       (simp_all add: meta_def describe_def TextModelRunner_describe_def
          ImageModelRunner_describe_def split: runner_class.split)
  then show ?thesis by (simp add: step_def) (simp add: meta_def)
qed

theorem meta_independent_of_load_witness:
  "load hub make_text_sentiment_runner boot = (Inr (), text_loaded, text_world) \<and>
   meta text_loaded = meta make_text_sentiment_runner \<and>
   map_of (meta make_text_sentiment_runner) ''name'' =
     Some ''distilbert-base-uncased-finetuned-sst-2-english'' \<and>
   map_of (meta text_loaded) ''name'' =
     Some ''distilbert-base-uncased-finetuned-sst-2-english'' \<and>
   map_of (meta make_text_sentiment_runner) ''category'' = Some ''Text'' \<and>
   map_of (meta text_loaded) ''category'' = Some ''Text'' \<and>
   snd (step hub Meta make_text_sentiment_runner boot) = (make_text_sentiment_runner, boot)"
  using meta_independent_of_load [OF text_load_fixture, of hub boot hub text_world]
    text_load_fixture
  by (simp add: make_text_sentiment_runner_def new_runner_def)

text \<open>
  Claim C10. The \<^verbatim>\<open>"short_description"\<close> entry of \<^verbatim>\<open>meta()\<close> is what \<^verbatim>\<open>describe()\<close>
  returns when the field \<^verbatim>\<open>short_description\<close> is the empty string, and the field
  itself otherwise.
\<close>

theorem meta_short_description:
  "map_of (meta r) ''short_description'' =
     Some (if short_description r = [] then describe r else short_description r)"
  by (simp add: meta_def)

theorem meta_short_description_witness:
  "map_of (meta (new_runner ImageModelRunner ''m'' ''t'' ''Vision'' [])) ''short_description'' =
     Some (''ImageModelRunner overrides describe(): runs an image pipeline (e.g., image-classification).''
           @ [CHR 0x0A] @ ''Model: m'' @ [CHR 0x0A] @ ''Task: t'') \<and>
   map_of (meta make_image_classifier_runner) ''short_description'' =
     Some ''ImageNet-style image classification using ViT base.''"
  using meta_short_description [of "new_runner ImageModelRunner ''m'' ''t'' ''Vision'' []"]
        meta_short_description [of make_image_classifier_runner]
  by (simp add: new_runner_def make_image_classifier_runner_def describe_def
        ImageModelRunner_describe_def)

end
